theory Spec2Isabelle
  imports Complex_Main
begin

section \<open>The standard relayer API order provider\<close>

text \<open>
  A shallow embedding of \<^verbatim>\<open>StandardRelayerAPIOrderProvider\<close>
  (\<^verbatim>\<open>packages/asset-swapper/src/order_providers/standard_relayer_api_order_provider.ts\<close>):
  the static normalizer of API orders, the constructor and the three asynchronous methods.
  The collaborators the class imports (\<^verbatim>\<open>BigNumber\<close>, \<^verbatim>\<open>orderCalculationUtils\<close>,
  \<^verbatim>\<open>assert\<close>, \<^verbatim>\<open>HttpClient\<close>, \<^verbatim>\<open>constants\<close>) are not among the sources; each is
  either a parameter of the definition that uses it or a definition marked as modelled
  from the specification.
\<close>

subsection \<open>Arbitrary-precision quantities\<close>

text \<open>
  A \<^verbatim>\<open>BigNumber\<close> is an exact decimal quantity or not a number. \<open>Finite q\<close> carries the
  exact rational value; \<open>NaN\<close> stands for every value of the library that is not a finite
  quantity.
\<close>

datatype BigNumber = Finite rat | NaN

definition isDigit :: "char \<Rightarrow> bool" where
  "isDigit c = (48 \<le> (of_char c :: nat) \<and> (of_char c :: nat) \<le> 57)"

definition digitsValue :: "string \<Rightarrow> nat" where
  "digitsValue ds = foldl (\<lambda>acc c. 10 * acc + ((of_char c :: nat) - 48)) 0 ds"

definition isDigits :: "string \<Rightarrow> bool" where
  "isDigits ds = (ds \<noteq> [] \<and> list_all isDigit ds)"

definition unsignedDecimal :: "string \<Rightarrow> BigNumber" where
  "unsignedDecimal s =
     (let intPart = takeWhile (\<lambda>c. c \<noteq> CHR ''.'') s;
          rest = dropWhile (\<lambda>c. c \<noteq> CHR ''.'') s
      in if \<not> isDigits intPart then NaN
         else if rest = [] then Finite (of_nat (digitsValue intPart))
         else if \<not> isDigits (tl rest) then NaN
         else Finite (of_nat (digitsValue intPart)
                      + of_nat (digitsValue (tl rest)) / 10 ^ length (tl rest)))"

definition negate :: "BigNumber \<Rightarrow> BigNumber" where
  "negate x = (case x of Finite q \<Rightarrow> Finite (- q) | NaN \<Rightarrow> NaN)"

text \<open>
  Modelled from the spec: the constructor \<^verbatim>\<open>new BigNumber(string)\<close> of \<^verbatim>\<open>@0x/utils\<close>,
  which is not among the sources. The specification says the metadata value is
  "interpreted as a decimal-string quantity": an optional minus sign, decimal digits and
  an optional fractional part denote their exact value. Every other string is mapped to
  \<open>NaN\<close> here; no result below depends on what such a string denotes.
\<close>

definition newBigNumber :: "string \<Rightarrow> BigNumber" where
  "newBigNumber s =
     (case s of
        [] \<Rightarrow> NaN
      | c # cs \<Rightarrow> if c = CHR ''-'' then negate (unsignedDecimal cs) else unsignedDecimal s)"

subsection \<open>Orders\<close>

text \<open>
  The type declarations of \<^verbatim>\<open>@0x/types\<close> are not among the sources. A signed order is
  modelled by the two amounts the normalizer reads; all its other fields (addresses, fees,
  salt, expiry, asset data, signature) are carried unchanged in \<open>otherFields\<close>, of an
  arbitrary type.
\<close>

record 'r signedOrder =
  makerAssetAmount :: BigNumber
  takerAssetAmount :: BigNumber
  otherFields :: 'r

text \<open>
  \<^verbatim>\<open>SignedOrderWithRemainingFillableMakerAssetAmount\<close>: the fields of the order and the
  derived field.
\<close>

record 'r signedOrderWithRemaining = "'r signedOrder" +
  remainingFillableMakerAssetAmount :: BigNumber

text \<open>
  \<^verbatim>\<open>APIOrder\<close>: an order and its metadata. The metadata is an object whose contents the
  relayer API leaves open; the source reads one property of it and types the result as
  \<^verbatim>\<open>string | undefined\<close>, so the metadata is a partial map from property names to strings.
\<close>

record 'r apiOrder =
  order :: "'r signedOrder"
  metaData :: "string \<rightharpoonup> string"

text \<open>
  Modelled from the spec: \<^verbatim>\<open>orderCalculationUtils.getMakerFillAmount\<close> of
  \<^verbatim>\<open>@0x/order-utils\<close>, which is not among the sources. The specification gives
  \<^verbatim>\<open>remainingMaker = floor(remainingTaker * order.makerAssetAmount / order.takerAssetAmount)\<close>,
  rounded down. The quotient has no value when the taker amount is zero or when an
  operand is not a number; the model returns \<open>NaN\<close> there.
\<close>

definition getMakerFillAmount :: "'r signedOrder \<Rightarrow> BigNumber \<Rightarrow> BigNumber" where
  "getMakerFillAmount ord takerFillAmount =
     (case (takerFillAmount, makerAssetAmount ord, takerAssetAmount ord) of
        (Finite t, Finite m, Finite d) \<Rightarrow>
          if d = 0 then NaN else Finite (of_int \<lfloor>t * m / d\<rfloor>)
      | _ \<Rightarrow> NaN)"

subsection \<open>The normalizer\<close>

text \<open>
  The constant \<^verbatim>\<open>remainingFillableTakerAssetAmount\<close> of the function mapped over the API
  orders. \<^verbatim>\<open>_.get(metaData, key)\<close> is the lookup of the key, \<^verbatim>\<open>undefined\<close> when the
  key is absent. The conditional tests the truthiness of the value: \<^verbatim>\<open>undefined\<close> and the
  empty string are falsy, every other string is truthy.
\<close>

definition remainingFillableTakerAssetAmount :: "'r apiOrder \<Rightarrow> BigNumber" where
  "remainingFillableTakerAssetAmount apiOrd =
     (let metaDataRemainingTakerAssetAmount = metaData apiOrd ''remainingTakerAssetAmount''
      in case metaDataRemainingTakerAssetAmount of
           None \<Rightarrow> takerAssetAmount (order apiOrd)
         | Some s \<Rightarrow> if s \<noteq> [] then newBigNumber s else takerAssetAmount (order apiOrd))"

text \<open>
  The body of the mapped function: the object spread copies the fields of the order and
  adds the derived field.
\<close>

definition withRemainingFillableMakerAssetAmount ::
    "'r apiOrder \<Rightarrow> 'r signedOrderWithRemaining" where
  "withRemainingFillableMakerAssetAmount apiOrd =
     (let ord = order apiOrd;
          remaining = getMakerFillAmount ord (remainingFillableTakerAssetAmount apiOrd)
      in \<lparr> makerAssetAmount = makerAssetAmount ord,
           takerAssetAmount = takerAssetAmount ord,
           otherFields = otherFields ord,
           remainingFillableMakerAssetAmount = remaining \<rparr>)"

definition getSignedOrderWithRemainingFillableMakerAssetAmountFromApi ::
    "'r apiOrder list \<Rightarrow> 'r signedOrderWithRemaining list" where
  "getSignedOrderWithRemainingFillableMakerAssetAmountFromApi apiOrders =
     map withRemainingFillableMakerAssetAmount apiOrders"

text \<open>
  A well-formed API order: the amounts of the order are quantities, the taker amount
  positive and the maker amount not negative, and the remaining taker amount of the
  metadata, when it is there and not empty, is the decimal string of a quantity that is
  not negative.
\<close>

definition wellFormedApiOrder :: "'r apiOrder \<Rightarrow> bool" where
  "wellFormedApiOrder apiOrd =
     ((case takerAssetAmount (order apiOrd) of Finite d \<Rightarrow> 0 < d | NaN \<Rightarrow> False) \<and>
      (case makerAssetAmount (order apiOrd) of Finite m \<Rightarrow> 0 \<le> m | NaN \<Rightarrow> False) \<and>
      (case metaData apiOrd ''remainingTakerAssetAmount'' of
         None \<Rightarrow> True
       | Some s \<Rightarrow> s = [] \<or> (case newBigNumber s of Finite t \<Rightarrow> 0 \<le> t | NaN \<Rightarrow> False)))"

subsection \<open>Requests, responses and the HTTP client\<close>

text \<open>
  A value as the constructor can receive it at run time for \<^verbatim>\<open>networkId\<close>: a finite
  number, one of the numbers that are not finite, or a value that is no number at all.
\<close>

datatype jsValue =
    JSNumber rat
  | JSNaN
  | JSInfinity
  | JSNegativeInfinity
  | JSString string
  | JSUndefined

record orderbookRequest =
  baseAssetData :: string
  quoteAssetData :: string

record requestOpts =
  networkId :: jsValue

text \<open>The object \<^verbatim>\<open>fullRequest\<close>: the spread of the request options and the request.\<close>

record assetPairsRequestOpts =
  networkId :: jsValue
  perPage :: nat
  assetDataA :: string

text \<open>
  Of the responses only the fields that the provider reads, and the other side of the
  order book, are modelled.
\<close>

record 'a paginatedCollection =
  records :: "'a list"

record 'r orderbookResponse =
  bids :: "'r apiOrder paginatedCollection"
  asks :: "'r apiOrder paginatedCollection"

record asset =
  assetData :: string

record assetPairsItem =
  assetDataA :: asset
  assetDataB :: asset

text \<open>
  The client of \<^verbatim>\<open>@0x/connect\<close>, not among the sources, is given by what its two
  methods answer: a promise that rejects with a cause of type \<open>'e\<close> (\<open>Inl\<close>) or resolves
  with a response (\<open>Inr\<close>). A promise that never settles is not modelled.
\<close>

record ('e, 'r) httpClient =
  getOrderbookAsync :: "orderbookRequest \<Rightarrow> requestOpts \<Rightarrow> 'e + 'r orderbookResponse"
  getAssetPairsAsync :: "assetPairsRequestOpts \<Rightarrow> 'e + assetPairsItem paginatedCollection"

text \<open>What a call does besides returning: the clients it creates and the requests it sends.\<close>

datatype event =
    NewHttpClient string
  | GetOrderbookAsync orderbookRequest requestOpts
  | GetAssetPairsAsync assetPairsRequestOpts

datatype swapQuoterError = StandardRelayerApiError

text \<open>
  The errors thrown. \<open>Error e\<close> is \<^verbatim>\<open>new Error(e)\<close> for a member \<open>e\<close> of
  \<^verbatim>\<open>SwapQuoterError\<close>. Modelled from the spec: the failures of \<^verbatim>\<open>utils/assert\<close>, which is
  not among the sources, are the specification's \<open>InvalidConfiguration\<close> (in the
  constructor) and \<open>InvalidRequest\<close> (in \<^verbatim>\<open>getOrdersAsync\<close>), each with the name of the
  variable that was checked.
\<close>

datatype error =
    InvalidConfiguration string
  | InvalidRequest string
  | Error swapQuoterError

record orderProviderRequest =
  makerAssetData :: string
  takerAssetData :: string

record 'r orderProviderResponse =
  orders :: "'r signedOrderWithRemaining list"

subsection \<open>The provider\<close>

record ('e, 'r) provider =
  apiUrl :: string
  networkId :: jsValue
  sraClient :: "('e, 'r) httpClient"

text \<open>
  Modelled from the spec: \<^verbatim>\<open>assert.isNumber\<close> of \<^verbatim>\<open>utils/assert\<close>, which is not among
  the sources. The specification says the network identifier "must be a finite number".
\<close>

definition isNumber :: "jsValue \<Rightarrow> bool" where
  "isNumber v = (case v of JSNumber _ \<Rightarrow> True | _ \<Rightarrow> False)"

text \<open>
  The constructor. The check \<^verbatim>\<open>assert.isWebUri\<close> and the class \<^verbatim>\<open>HttpClient\<close> are
  parameters: \<open>isWebUri\<close> says which strings pass the check, \<open>HttpClient url\<close> is the
  client that \<^verbatim>\<open>new HttpClient(url)\<close> creates.
\<close>

definition "constructor" ::
    "(string \<Rightarrow> bool) \<Rightarrow> (string \<Rightarrow> ('e, 'r) httpClient) \<Rightarrow> string \<Rightarrow> jsValue
     \<Rightarrow> (error + ('e, 'r) provider) \<times> event list" where
  "constructor isWebUri HttpClient url netId =
     (if \<not> isWebUri url then (Inl (InvalidConfiguration ''apiUrl''), [])
      else if \<not> isNumber netId then (Inl (InvalidConfiguration ''networkId''), [])
      else (Inr \<lparr> apiUrl = url, networkId = netId, sraClient = HttpClient url \<rparr>,
            [NewHttpClient url]))"

text \<open>
  \<^verbatim>\<open>getOrdersAsync\<close>. The check \<^verbatim>\<open>assert.isValidOrderProviderRequest\<close> is a parameter.
\<close>

definition getOrdersAsync ::
    "(orderProviderRequest \<Rightarrow> bool) \<Rightarrow> ('e, 'r) provider \<Rightarrow> orderProviderRequest
     \<Rightarrow> (error + 'r orderProviderResponse) \<times> event list" where
  "getOrdersAsync isValidOrderProviderRequest this orderProviderRequest =
     (if \<not> isValidOrderProviderRequest orderProviderRequest
      then (Inl (InvalidRequest ''orderProviderRequest''), [])
      else
        let orderbookRequest = \<lparr> baseAssetData = makerAssetData orderProviderRequest,
                                 quoteAssetData = takerAssetData orderProviderRequest \<rparr>;
            requestOpts = \<lparr> requestOpts.networkId = networkId this \<rparr>
        in case getOrderbookAsync (sraClient this) orderbookRequest requestOpts of
             Inl err \<Rightarrow>
               (Inl (Error StandardRelayerApiError),
                [GetOrderbookAsync orderbookRequest requestOpts])
           | Inr orderbook \<Rightarrow>
               (let apiOrders = records (asks orderbook);
                    orders' = getSignedOrderWithRemainingFillableMakerAssetAmountFromApi apiOrders
                in (Inr \<lparr> orders = orders' \<rparr>,
                    [GetOrderbookAsync orderbookRequest requestOpts])))"

definition getAvailableMakerAssetDatasAsync ::
    "('e, 'r) provider \<Rightarrow> string \<Rightarrow> (error + string list) \<times> event list" where
  "getAvailableMakerAssetDatasAsync this takerAssetData' =
     (let maxPerPage = 1000;
          fullRequest = \<lparr> assetPairsRequestOpts.networkId = networkId this,
                          perPage = maxPerPage,
                          assetPairsRequestOpts.assetDataA = takerAssetData' \<rparr>
      in case getAssetPairsAsync (sraClient this) fullRequest of
           Inl err \<Rightarrow> (Inl (Error StandardRelayerApiError), [GetAssetPairsAsync fullRequest])
         | Inr response \<Rightarrow>
             (Inr (map (\<lambda>item. if assetData (assetDataA item) = takerAssetData'
                                then assetData (assetDataB item)
                                else assetData (assetDataA item))
                       (records response)),
              [GetAssetPairsAsync fullRequest]))"

text \<open>
  \<^verbatim>\<open>getAvailableTakerAssetDatasAsync\<close>. The constant \<^verbatim>\<open>constants.DEFAULT_PER_PAGE\<close> is
  not among the sources and is a parameter.
\<close>

definition getAvailableTakerAssetDatasAsync ::
    "nat \<Rightarrow> ('e, 'r) provider \<Rightarrow> string \<Rightarrow> (error + string list) \<times> event list" where
  "getAvailableTakerAssetDatasAsync DEFAULT_PER_PAGE this makerAssetData' =
     (let fullRequest = \<lparr> assetPairsRequestOpts.networkId = networkId this,
                          perPage = DEFAULT_PER_PAGE,
                          assetPairsRequestOpts.assetDataA = makerAssetData' \<rparr>
      in case getAssetPairsAsync (sraClient this) fullRequest of
           Inl err \<Rightarrow> (Inl (Error StandardRelayerApiError), [GetAssetPairsAsync fullRequest])
         | Inr response \<Rightarrow>
             (Inr (map (\<lambda>item. if assetData (assetDataA item) = makerAssetData'
                                then assetData (assetDataB item)
                                else assetData (assetDataA item))
                       (records response)),
              [GetAssetPairsAsync fullRequest]))"

subsection \<open>Example values\<close>

text \<open>Concrete orders, a concrete client and a concrete provider for the examples below.\<close>

definition exampleOrder :: "rat \<Rightarrow> rat \<Rightarrow> unit signedOrder" where
  "exampleOrder m t =
     \<lparr> makerAssetAmount = Finite m, takerAssetAmount = Finite t, otherFields = () \<rparr>"

definition exampleApiOrder :: "rat \<Rightarrow> rat \<Rightarrow> (string \<rightharpoonup> string) \<Rightarrow> unit apiOrder" where
  "exampleApiOrder m t md = \<lparr> order = exampleOrder m t, metaData = md \<rparr>"

text \<open>One check of web URIs among those the constructor can be given.\<close>

definition startsWithHttp :: "string \<Rightarrow> bool" where
  "startsWithHttp s = (take 7 s = ''http://'' \<or> take 8 s = ''https://'')"

definition examplePair :: assetPairsItem where
  "examplePair =
     \<lparr> assetDataA = \<lparr> assetData = ''X'' \<rparr>, assetDataB = \<lparr> assetData = ''Y'' \<rparr> \<rparr>"

text \<open>
  A client whose order-book lookup times out and whose asset-pairs lookup fails for the
  asset \<open>''fail''\<close> and answers one pair for every other asset.
\<close>

definition exampleClient :: "(string, unit) httpClient" where
  "exampleClient =
     \<lparr> getOrderbookAsync = (\<lambda>request opts. Inl ''timeout''),
       getAssetPairsAsync = (\<lambda>request.
          if assetPairsRequestOpts.assetDataA request = ''fail'' then Inl ''500''
          else Inr \<lparr> records = [examplePair] \<rparr>) \<rparr>"

definition exampleProvider :: "(string, unit) provider" where
  "exampleProvider =
     \<lparr> apiUrl = ''http://sra.example'', networkId = JSNumber 1, sraClient = exampleClient \<rparr>"

section \<open>Properties of the normalizer\<close>

lemma newBigNumber_50: "newBigNumber ''50'' = Finite 50"
  by (simp add: newBigNumber_def unsignedDecimal_def isDigits_def isDigit_def digitsValue_def)

lemma normalizer_nth:
  "i < length apiOrders \<Longrightarrow>
   getSignedOrderWithRemainingFillableMakerAssetAmountFromApi apiOrders ! i
     = withRemainingFillableMakerAssetAmount (apiOrders ! i)"
  by (simp add: getSignedOrderWithRemainingFillableMakerAssetAmountFromApi_def)

lemma remaining_of_record:
  "remainingFillableMakerAssetAmount (withRemainingFillableMakerAssetAmount a)
     = getMakerFillAmount (order a) (remainingFillableTakerAssetAmount a)"
  by (simp add: withRemainingFillableMakerAssetAmount_def Let_def)

lemma wellFormed_remainingTaker:
  assumes "wellFormedApiOrder a"
  shows "\<exists>t. remainingFillableTakerAssetAmount a = Finite t \<and> 0 \<le> t"
proof -
  from assms obtain d where d: "takerAssetAmount (order a) = Finite d" "0 < d"
    by (auto simp: wellFormedApiOrder_def split: BigNumber.splits)
  show ?thesis
  proof (cases "metaData a ''remainingTakerAssetAmount''")
    case None
    then show ?thesis using d by (simp add: remainingFillableTakerAssetAmount_def)
  next
    case (Some s)
    show ?thesis
    proof (cases "s = []")
      case True
      then show ?thesis using Some d by (simp add: remainingFillableTakerAssetAmount_def)
    next
      case False
      with assms Some show ?thesis
        by (cases "newBigNumber s")
           (simp_all add: wellFormedApiOrder_def remainingFillableTakerAssetAmount_def)
    qed
  qed
qed

lemma wellFormed_remainingMaker:
  assumes "wellFormedApiOrder a"
  shows "\<exists>q. remainingFillableMakerAssetAmount (withRemainingFillableMakerAssetAmount a) = Finite q
             \<and> 0 \<le> q"
proof -
  from assms obtain d m where d: "takerAssetAmount (order a) = Finite d" "0 < d"
    and m: "makerAssetAmount (order a) = Finite m" "0 \<le> m"
    by (auto simp: wellFormedApiOrder_def split: BigNumber.splits)
  from wellFormed_remainingTaker [OF assms]
  obtain t where t: "remainingFillableTakerAssetAmount a = Finite t" "0 \<le> t"
    by blast
  have "0 \<le> t * m / d" using d m t by simp
  then show ?thesis using d m t
    by (simp add: remaining_of_record getMakerFillAmount_def)
qed

text \<open>
  C1 (normalization totality). For every list of well-formed API orders, every order
  that the normalizer produces has a remaining fillable maker amount that is a quantity
  (not \<open>NaN\<close>) and is not negative.
\<close>

theorem normalization_totality:
  assumes "\<forall>a \<in> set apiOrders. wellFormedApiOrder a"
    and "o' \<in> set (getSignedOrderWithRemainingFillableMakerAssetAmountFromApi apiOrders)"
  shows "\<exists>q. remainingFillableMakerAssetAmount o' = Finite q \<and> 0 \<le> q"
  using assms wellFormed_remainingMaker
  by (auto simp: getSignedOrderWithRemainingFillableMakerAssetAmountFromApi_def)

theorem normalization_totality_witness:
  "wellFormedApiOrder (exampleApiOrder 200 100 [''remainingTakerAssetAmount'' \<mapsto> ''50''])
   \<and> getSignedOrderWithRemainingFillableMakerAssetAmountFromApi
         [exampleApiOrder 200 100 [''remainingTakerAssetAmount'' \<mapsto> ''50'']]
       = [\<lparr> makerAssetAmount = Finite 200, takerAssetAmount = Finite 100, otherFields = (),
            remainingFillableMakerAssetAmount = Finite 100 \<rparr>]
   \<and> (\<exists>q. remainingFillableMakerAssetAmount
             \<lparr> makerAssetAmount = Finite 200, takerAssetAmount = Finite 100, otherFields = (),
               remainingFillableMakerAssetAmount = Finite 100 \<rparr> = Finite q \<and> 0 \<le> q)"
proof -
  let ?a = "exampleApiOrder 200 100 [''remainingTakerAssetAmount'' \<mapsto> ''50'']"
  let ?o = "\<lparr> makerAssetAmount = Finite 200, takerAssetAmount = Finite 100, otherFields = (),
        remainingFillableMakerAssetAmount = Finite 100 \<rparr>"
  have w: "wellFormedApiOrder ?a"
    by (simp add: wellFormedApiOrder_def exampleApiOrder_def exampleOrder_def newBigNumber_50)
  then have h1: "\<forall>a \<in> set [?a]. wellFormedApiOrder a"
    by simp
  have e: "getSignedOrderWithRemainingFillableMakerAssetAmountFromApi [?a] = [?o]"
    by (simp add: getSignedOrderWithRemainingFillableMakerAssetAmountFromApi_def
        withRemainingFillableMakerAssetAmount_def remainingFillableTakerAssetAmount_def
        getMakerFillAmount_def exampleApiOrder_def exampleOrder_def newBigNumber_50)
  then have h2: "?o \<in> set (getSignedOrderWithRemainingFillableMakerAssetAmountFromApi [?a])"
    by simp
  from normalization_totality [OF h1 h2] w e show ?thesis by blast
qed

text \<open>
  C2 (metadata precedence). When the metadata of the \<open>i\<close>-th API order holds a
  \<open>remainingTakerAssetAmount\<close> that is not the empty string, the remaining taker quantity
  is the number that string denotes, not the taker amount of the order, and the \<open>i\<close>-th
  order produced has as its remaining fillable maker amount the fill amount of the order
  for that number. For the string \<open>"50"\<close> this is \<open>floor (50 * maker / taker)\<close> for every
  maker amount and every taker amount other than zero; with the taker amount 100 and the
  maker amount 200 it is 100, where the full taker amount would give 200.
\<close>

theorem metadata_precedence:
  assumes "i < length apiOrders"
    and "metaData (apiOrders ! i) ''remainingTakerAssetAmount'' = Some s"
    and "s \<noteq> []"
  shows "remainingFillableTakerAssetAmount (apiOrders ! i) = newBigNumber s
       \<and> remainingFillableMakerAssetAmount
           (getSignedOrderWithRemainingFillableMakerAssetAmountFromApi apiOrders ! i)
         = getMakerFillAmount (order (apiOrders ! i)) (newBigNumber s)
       \<and> (s = ''50'' \<longrightarrow>
            remainingFillableTakerAssetAmount (apiOrders ! i) = Finite 50
            \<and> (\<forall>m d. makerAssetAmount (order (apiOrders ! i)) = Finite m
                    \<and> takerAssetAmount (order (apiOrders ! i)) = Finite d \<and> d \<noteq> 0
                  \<longrightarrow> remainingFillableMakerAssetAmount
                        (getSignedOrderWithRemainingFillableMakerAssetAmountFromApi apiOrders ! i)
                      = Finite (of_int \<lfloor>50 * m / d\<rfloor>)))
       \<and> (s = ''50'' \<and> takerAssetAmount (order (apiOrders ! i)) = Finite 100
            \<and> makerAssetAmount (order (apiOrders ! i)) = Finite 200
          \<longrightarrow> remainingFillableMakerAssetAmount
                (getSignedOrderWithRemainingFillableMakerAssetAmountFromApi apiOrders ! i)
              = Finite 100
            \<and> getMakerFillAmount (order (apiOrders ! i))
                (takerAssetAmount (order (apiOrders ! i))) = Finite 200)"
proof -
  have taker: "remainingFillableTakerAssetAmount (apiOrders ! i) = newBigNumber s"
    using assms by (simp add: remainingFillableTakerAssetAmount_def)
  have maker: "remainingFillableMakerAssetAmount
           (getSignedOrderWithRemainingFillableMakerAssetAmountFromApi apiOrders ! i)
         = getMakerFillAmount (order (apiOrders ! i)) (newBigNumber s)"
    using assms taker by (simp add: normalizer_nth remaining_of_record)
  show ?thesis
    by (simp add: taker maker newBigNumber_50 getMakerFillAmount_def)
qed

theorem metadata_precedence_witness:
  "remainingFillableMakerAssetAmount
     (getSignedOrderWithRemainingFillableMakerAssetAmountFromApi
        [exampleApiOrder 200 100 [''remainingTakerAssetAmount'' \<mapsto> ''50'']] ! 0) = Finite 100
   \<and> remainingFillableMakerAssetAmount
     (getSignedOrderWithRemainingFillableMakerAssetAmountFromApi
        [exampleApiOrder 7 3 Map.empty,
         exampleApiOrder 7 3 [''remainingTakerAssetAmount'' \<mapsto> ''50'']] ! 1) = Finite 116"
proof -
  let ?xs = "[exampleApiOrder 200 100 [''remainingTakerAssetAmount'' \<mapsto> ''50'']]"
  let ?ys = "[exampleApiOrder 7 3 Map.empty,
              exampleApiOrder 7 3 [''remainingTakerAssetAmount'' \<mapsto> ''50'']]"
  have hx: "0 < length ?xs" "metaData (?xs ! 0) ''remainingTakerAssetAmount'' = Some ''50''"
    and hy: "1 < length ?ys" "metaData (?ys ! 1) ''remainingTakerAssetAmount'' = Some ''50''"
    and ne: "''50'' \<noteq> []"
    by (simp_all add: exampleApiOrder_def)
  from metadata_precedence [OF hx ne]
  have x: "remainingFillableMakerAssetAmount
             (getSignedOrderWithRemainingFillableMakerAssetAmountFromApi ?xs ! 0) = Finite 100"
    by (simp add: exampleApiOrder_def exampleOrder_def newBigNumber_50 getMakerFillAmount_def)
  from metadata_precedence [OF hy ne]
  have "\<forall>m d. makerAssetAmount (order (?ys ! 1)) = Finite m
                \<and> takerAssetAmount (order (?ys ! 1)) = Finite d \<and> d \<noteq> 0
              \<longrightarrow> remainingFillableMakerAssetAmount
                    (getSignedOrderWithRemainingFillableMakerAssetAmountFromApi ?ys ! 1)
                  = Finite (of_int \<lfloor>50 * m / d\<rfloor>)"
    by blast
  then have "remainingFillableMakerAssetAmount
               (getSignedOrderWithRemainingFillableMakerAssetAmountFromApi ?ys ! 1)
             = Finite (of_int \<lfloor>50 * 7 / (3::rat)\<rfloor>)"
    by (simp add: exampleApiOrder_def exampleOrder_def)
  moreover have "\<lfloor>50 * 7 / (3::rat)\<rfloor> = 116"
    by (simp add: floor_eq_iff)
  ultimately show ?thesis using x by simp
qed

text \<open>
  C3 (default to the full amount). When the metadata of the \<open>i\<close>-th API order has no
  \<open>remainingTakerAssetAmount\<close>, the remaining taker quantity is the taker amount of the
  order; with the taker amount 100 and the maker amount 50 the \<open>i\<close>-th order produced has
  the remaining fillable maker amount 50.
\<close>

theorem default_to_full_amount:
  assumes "i < length apiOrders"
    and "metaData (apiOrders ! i) ''remainingTakerAssetAmount'' = None"
  shows "remainingFillableTakerAssetAmount (apiOrders ! i) = takerAssetAmount (order (apiOrders ! i))
       \<and> remainingFillableMakerAssetAmount
           (getSignedOrderWithRemainingFillableMakerAssetAmountFromApi apiOrders ! i)
         = getMakerFillAmount (order (apiOrders ! i)) (takerAssetAmount (order (apiOrders ! i)))
       \<and> (takerAssetAmount (order (apiOrders ! i)) = Finite 100
            \<and> makerAssetAmount (order (apiOrders ! i)) = Finite 50
          \<longrightarrow> remainingFillableMakerAssetAmount
                (getSignedOrderWithRemainingFillableMakerAssetAmountFromApi apiOrders ! i)
              = Finite 50)"
  using assms
  by (simp add: normalizer_nth remaining_of_record remainingFillableTakerAssetAmount_def
      getMakerFillAmount_def)

theorem default_to_full_amount_witness:
  "remainingFillableMakerAssetAmount
     (getSignedOrderWithRemainingFillableMakerAssetAmountFromApi
        [exampleApiOrder 50 100 Map.empty] ! 0) = Finite 50"
  using default_to_full_amount [of 0 "[exampleApiOrder 50 100 Map.empty]"]
  by (simp add: exampleApiOrder_def exampleOrder_def getMakerFillAmount_def)

text \<open>
  C7 (order preservation). The list produced has the length of the list given, its
  \<open>i\<close>-th element is the function body applied to the \<open>i\<close>-th API order and carries the
  fields of that order, and the empty list gives the empty list.
\<close>

theorem order_preservation:
  "length (getSignedOrderWithRemainingFillableMakerAssetAmountFromApi apiOrders)
     = length apiOrders
   \<and> (\<forall>i < length apiOrders.
        getSignedOrderWithRemainingFillableMakerAssetAmountFromApi apiOrders ! i
          = withRemainingFillableMakerAssetAmount (apiOrders ! i)
        \<and> signedOrder.truncate
            (getSignedOrderWithRemainingFillableMakerAssetAmountFromApi apiOrders ! i)
          = order (apiOrders ! i))
   \<and> getSignedOrderWithRemainingFillableMakerAssetAmountFromApi ([] :: 'r apiOrder list) = []"
  by (simp add: getSignedOrderWithRemainingFillableMakerAssetAmountFromApi_def
      withRemainingFillableMakerAssetAmount_def signedOrder.truncate_def Let_def)

theorem order_preservation_witness:
  "length (getSignedOrderWithRemainingFillableMakerAssetAmountFromApi
             [exampleApiOrder 50 100 Map.empty,
              exampleApiOrder 200 100 [''remainingTakerAssetAmount'' \<mapsto> ''50'']]) = 2
   \<and> signedOrder.truncate
        (getSignedOrderWithRemainingFillableMakerAssetAmountFromApi
           [exampleApiOrder 50 100 Map.empty,
            exampleApiOrder 200 100 [''remainingTakerAssetAmount'' \<mapsto> ''50'']] ! 1)
      = exampleOrder 200 100"
proof -
  let ?xs = "[exampleApiOrder 50 100 Map.empty,
              exampleApiOrder 200 100 [''remainingTakerAssetAmount'' \<mapsto> ''50'']]"
  from order_preservation [of ?xs]
  have len: "length (getSignedOrderWithRemainingFillableMakerAssetAmountFromApi ?xs) = length ?xs"
    and nth: "\<forall>i < length ?xs.
        getSignedOrderWithRemainingFillableMakerAssetAmountFromApi ?xs ! i
          = withRemainingFillableMakerAssetAmount (?xs ! i)
        \<and> signedOrder.truncate (getSignedOrderWithRemainingFillableMakerAssetAmountFromApi ?xs ! i)
          = order (?xs ! i)"
    by blast+
  have "(1::nat) < length ?xs" by simp
  with nth have "signedOrder.truncate (getSignedOrderWithRemainingFillableMakerAssetAmountFromApi ?xs ! 1)
          = order (?xs ! 1)"
    by blast
  with len show ?thesis by (simp add: exampleApiOrder_def)
qed

text \<open>
  C10 (the empty string counts as absent). When the metadata of the \<open>i\<close>-th API order
  holds \<open>remainingTakerAssetAmount\<close> with the empty string as its value, the remaining taker
  quantity is the taker amount of the order, and the \<open>i\<close>-th order produced is the one
  produced for the same API order without that property.
\<close>

theorem empty_string_as_absent:
  assumes "i < length apiOrders"
    and "metaData (apiOrders ! i) ''remainingTakerAssetAmount'' = Some ''''"
  shows "remainingFillableTakerAssetAmount (apiOrders ! i) = takerAssetAmount (order (apiOrders ! i))
       \<and> remainingFillableMakerAssetAmount
           (getSignedOrderWithRemainingFillableMakerAssetAmountFromApi apiOrders ! i)
         = getMakerFillAmount (order (apiOrders ! i)) (takerAssetAmount (order (apiOrders ! i)))
       \<and> getSignedOrderWithRemainingFillableMakerAssetAmountFromApi apiOrders ! i
         = withRemainingFillableMakerAssetAmount
             ((apiOrders ! i)\<lparr> metaData :=
                 (metaData (apiOrders ! i))(''remainingTakerAssetAmount'' := None) \<rparr>)"
  using assms
  by (simp add: normalizer_nth withRemainingFillableMakerAssetAmount_def
      remainingFillableTakerAssetAmount_def Let_def)

theorem empty_string_as_absent_witness:
  "remainingFillableTakerAssetAmount
     ([exampleApiOrder 50 100 [''remainingTakerAssetAmount'' \<mapsto> '''']] ! 0) = Finite 100
   \<and> remainingFillableMakerAssetAmount
       (getSignedOrderWithRemainingFillableMakerAssetAmountFromApi
          [exampleApiOrder 50 100 [''remainingTakerAssetAmount'' \<mapsto> '''']] ! 0) = Finite 50"
proof -
  let ?xs = "[exampleApiOrder 50 100 [''remainingTakerAssetAmount'' \<mapsto> '''']]"
  have h: "0 < length ?xs" "metaData (?xs ! 0) ''remainingTakerAssetAmount'' = Some ''''"
    by (simp_all add: exampleApiOrder_def)
  from empty_string_as_absent [OF h]
  have "remainingFillableTakerAssetAmount (?xs ! 0) = takerAssetAmount (order (?xs ! 0))"
    and "remainingFillableMakerAssetAmount
           (getSignedOrderWithRemainingFillableMakerAssetAmountFromApi ?xs ! 0)
         = getMakerFillAmount (order (?xs ! 0)) (takerAssetAmount (order (?xs ! 0)))"
    by blast+
  then show ?thesis
    by (simp add: exampleApiOrder_def exampleOrder_def getMakerFillAmount_def)
qed

section \<open>Properties of the provider\<close>

text \<open>
  C4 (uniform failure mapping). Whatever the cause with which the order-book lookup of
  \<^verbatim>\<open>getOrdersAsync\<close> (for a request that passes the check) or the asset-pairs lookup of
  either discovery method rejects, the method fails with the one error
  \<open>Error StandardRelayerApiError\<close>, in which the cause does not occur.
\<close>

theorem uniform_failure_mapping:
  "(isValidOrderProviderRequest request
      \<and> getOrderbookAsync (sraClient this)
           \<lparr> baseAssetData = makerAssetData request, quoteAssetData = takerAssetData request \<rparr>
           \<lparr> requestOpts.networkId = networkId this \<rparr> = Inl cause
      \<longrightarrow> fst (getOrdersAsync isValidOrderProviderRequest this request)
            = Inl (Error StandardRelayerApiError))
   \<and> (getAssetPairsAsync (sraClient this)
           \<lparr> assetPairsRequestOpts.networkId = networkId this, perPage = 1000,
             assetPairsRequestOpts.assetDataA = assetId \<rparr> = Inl cause
      \<longrightarrow> fst (getAvailableMakerAssetDatasAsync this assetId)
            = Inl (Error StandardRelayerApiError))
   \<and> (getAssetPairsAsync (sraClient this)
           \<lparr> assetPairsRequestOpts.networkId = networkId this, perPage = DEFAULT_PER_PAGE,
             assetPairsRequestOpts.assetDataA = assetId \<rparr> = Inl cause
      \<longrightarrow> fst (getAvailableTakerAssetDatasAsync DEFAULT_PER_PAGE this assetId)
            = Inl (Error StandardRelayerApiError))"
  by (simp add: getOrdersAsync_def getAvailableMakerAssetDatasAsync_def
      getAvailableTakerAssetDatasAsync_def)

theorem uniform_failure_mapping_witness:
  "fst (getOrdersAsync (\<lambda>r. True) exampleProvider
          \<lparr> makerAssetData = ''X'', takerAssetData = ''Y'' \<rparr>) = Inl (Error StandardRelayerApiError)
   \<and> fst (getAvailableMakerAssetDatasAsync exampleProvider ''fail'')
       = Inl (Error StandardRelayerApiError)
   \<and> fst (getAvailableTakerAssetDatasAsync 100 exampleProvider ''fail'')
       = Inl (Error StandardRelayerApiError)"
proof -
  have h1: "getOrderbookAsync (sraClient exampleProvider)
           \<lparr> baseAssetData = makerAssetData \<lparr> makerAssetData = ''X'', takerAssetData = ''Y'' \<rparr>,
             quoteAssetData = takerAssetData \<lparr> makerAssetData = ''X'', takerAssetData = ''Y'' \<rparr> \<rparr>
           \<lparr> requestOpts.networkId = networkId exampleProvider \<rparr> = Inl ''timeout''"
    by (simp add: exampleProvider_def exampleClient_def)
  have h2: "getAssetPairsAsync (sraClient exampleProvider)
           \<lparr> assetPairsRequestOpts.networkId = networkId exampleProvider, perPage = p,
             assetPairsRequestOpts.assetDataA = ''fail'' \<rparr> = Inl ''500''" for p
    by (simp add: exampleProvider_def exampleClient_def)
  show ?thesis
    using uniform_failure_mapping [of "\<lambda>r. True" "\<lparr> makerAssetData = ''X'', takerAssetData = ''Y'' \<rparr>"
        exampleProvider "''timeout''" "''fail''" 100] 
      uniform_failure_mapping [of "\<lambda>r. True" "\<lparr> makerAssetData = ''X'', takerAssetData = ''Y'' \<rparr>"
        exampleProvider "''500''" "''fail''" 100] h1 h2
    by simp
qed

text \<open>
  C5 (pair symmetry). For a record of the response whose side A is \<open>X\<close> and whose side B
  is \<open>Y\<close>, with \<open>X \<noteq> Y\<close>: either discovery method, asked for \<open>X\<close>, returns \<open>Y\<close> at
  the position of the record, and asked for \<open>Y\<close> returns \<open>X\<close> there.
\<close>

theorem pair_symmetry:
  assumes "i < length (records response)"
    and "assetData (assetDataA (records response ! i)) = X"
    and "assetData (assetDataB (records response ! i)) = Y"
    and "X \<noteq> Y"
  shows "(getAssetPairsAsync (sraClient this)
            \<lparr> assetPairsRequestOpts.networkId = networkId this, perPage = 1000,
              assetPairsRequestOpts.assetDataA = X \<rparr> = Inr response
          \<longrightarrow> (\<exists>out. fst (getAvailableMakerAssetDatasAsync this X) = Inr out
                 \<and> i < length out \<and> out ! i = Y))
       \<and> (getAssetPairsAsync (sraClient this)
            \<lparr> assetPairsRequestOpts.networkId = networkId this, perPage = 1000,
              assetPairsRequestOpts.assetDataA = Y \<rparr> = Inr response
          \<longrightarrow> (\<exists>out. fst (getAvailableMakerAssetDatasAsync this Y) = Inr out
                 \<and> i < length out \<and> out ! i = X))
       \<and> (getAssetPairsAsync (sraClient this)
            \<lparr> assetPairsRequestOpts.networkId = networkId this, perPage = DEFAULT_PER_PAGE,
              assetPairsRequestOpts.assetDataA = X \<rparr> = Inr response
          \<longrightarrow> (\<exists>out. fst (getAvailableTakerAssetDatasAsync DEFAULT_PER_PAGE this X) = Inr out
                 \<and> i < length out \<and> out ! i = Y))
       \<and> (getAssetPairsAsync (sraClient this)
            \<lparr> assetPairsRequestOpts.networkId = networkId this, perPage = DEFAULT_PER_PAGE,
              assetPairsRequestOpts.assetDataA = Y \<rparr> = Inr response
          \<longrightarrow> (\<exists>out. fst (getAvailableTakerAssetDatasAsync DEFAULT_PER_PAGE this Y) = Inr out
                 \<and> i < length out \<and> out ! i = X))"
  using assms
  by (simp add: getAvailableMakerAssetDatasAsync_def getAvailableTakerAssetDatasAsync_def)

theorem pair_symmetry_witness:
  "fst (getAvailableMakerAssetDatasAsync exampleProvider ''X'') = Inr [''Y'']
   \<and> fst (getAvailableMakerAssetDatasAsync exampleProvider ''Y'') = Inr [''X'']
   \<and> fst (getAvailableTakerAssetDatasAsync 100 exampleProvider ''X'') = Inr [''Y'']
   \<and> fst (getAvailableTakerAssetDatasAsync 100 exampleProvider ''Y'') = Inr [''X'']"
proof -
  let ?response = "\<lparr> records = [examplePair] \<rparr>"
  have h: "0 < length (records ?response)"
    "assetData (assetDataA (records ?response ! 0)) = ''X''"
    "assetData (assetDataB (records ?response ! 0)) = ''Y''"
    "''X'' \<noteq> ''Y''"
    by (simp_all add: examplePair_def)
  have r: "getAssetPairsAsync (sraClient exampleProvider)
            \<lparr> assetPairsRequestOpts.networkId = networkId exampleProvider, perPage = p,
              assetPairsRequestOpts.assetDataA = ''X'' \<rparr> = Inr ?response"
    "getAssetPairsAsync (sraClient exampleProvider)
            \<lparr> assetPairsRequestOpts.networkId = networkId exampleProvider, perPage = p,
              assetPairsRequestOpts.assetDataA = ''Y'' \<rparr> = Inr ?response" for p
    by (simp_all add: exampleProvider_def exampleClient_def)
  show ?thesis
    using pair_symmetry [OF h, of exampleProvider 100] r
    by (simp add: getAvailableMakerAssetDatasAsync_def getAvailableTakerAssetDatasAsync_def
        examplePair_def)
qed

text \<open>
  C6 (fallback when no side matches). For a record of the response neither side of which
  is the asset asked for, either discovery method succeeds and returns side A of the
  record at its position.
\<close>

theorem no_match_fallback:
  assumes "i < length (records response)"
    and "assetData (assetDataA (records response ! i)) \<noteq> assetId"
    and "assetData (assetDataB (records response ! i)) \<noteq> assetId"
  shows "(getAssetPairsAsync (sraClient this)
            \<lparr> assetPairsRequestOpts.networkId = networkId this, perPage = 1000,
              assetPairsRequestOpts.assetDataA = assetId \<rparr> = Inr response
          \<longrightarrow> (\<exists>out. fst (getAvailableMakerAssetDatasAsync this assetId) = Inr out
                 \<and> i < length out
                 \<and> out ! i = assetData (assetDataA (records response ! i))))
       \<and> (getAssetPairsAsync (sraClient this)
            \<lparr> assetPairsRequestOpts.networkId = networkId this, perPage = DEFAULT_PER_PAGE,
              assetPairsRequestOpts.assetDataA = assetId \<rparr> = Inr response
          \<longrightarrow> (\<exists>out. fst (getAvailableTakerAssetDatasAsync DEFAULT_PER_PAGE this assetId) = Inr out
                 \<and> i < length out
                 \<and> out ! i = assetData (assetDataA (records response ! i))))"
  using assms
  by (simp add: getAvailableMakerAssetDatasAsync_def getAvailableTakerAssetDatasAsync_def)

theorem no_match_fallback_witness:
  "fst (getAvailableMakerAssetDatasAsync exampleProvider ''Z'') = Inr [''X'']
   \<and> fst (getAvailableTakerAssetDatasAsync 100 exampleProvider ''Z'') = Inr [''X'']"
proof -
  let ?response = "\<lparr> records = [examplePair] \<rparr>"
  have h: "0 < length (records ?response)"
    "assetData (assetDataA (records ?response ! 0)) \<noteq> ''Z''"
    "assetData (assetDataB (records ?response ! 0)) \<noteq> ''Z''"
    by (simp_all add: examplePair_def)
  have r: "getAssetPairsAsync (sraClient exampleProvider)
            \<lparr> assetPairsRequestOpts.networkId = networkId exampleProvider, perPage = p,
              assetPairsRequestOpts.assetDataA = ''Z'' \<rparr> = Inr ?response" for p
    by (simp add: exampleProvider_def exampleClient_def)
  show ?thesis
    using no_match_fallback [OF h, of exampleProvider 100] r
    by (simp add: getAvailableMakerAssetDatasAsync_def getAvailableTakerAssetDatasAsync_def
        examplePair_def)
qed

text \<open>
  C8 (page-size contract). \<^verbatim>\<open>getAvailableMakerAssetDatasAsync\<close> sends exactly one
  request, an asset-pairs request with \<open>perPage = 1000\<close>, and its outcome is decided by the
  client's answer to that request alone: the error when the answer is a rejection, and
  otherwise one asset for each record of that one page, in the order of the page.
  \<^verbatim>\<open>getAvailableTakerAssetDatasAsync\<close> does the same with \<open>perPage = DEFAULT_PER_PAGE\<close>.
\<close>

theorem page_size_contract:
  "snd (getAvailableMakerAssetDatasAsync this assetId)
     = [GetAssetPairsAsync \<lparr> assetPairsRequestOpts.networkId = networkId this, perPage = 1000,
                             assetPairsRequestOpts.assetDataA = assetId \<rparr>]
   \<and> snd (getAvailableTakerAssetDatasAsync DEFAULT_PER_PAGE this assetId)
     = [GetAssetPairsAsync \<lparr> assetPairsRequestOpts.networkId = networkId this,
                             perPage = DEFAULT_PER_PAGE,
                             assetPairsRequestOpts.assetDataA = assetId \<rparr>]
   \<and> fst (getAvailableMakerAssetDatasAsync this assetId)
     = (case getAssetPairsAsync (sraClient this)
              \<lparr> assetPairsRequestOpts.networkId = networkId this, perPage = 1000,
                assetPairsRequestOpts.assetDataA = assetId \<rparr> of
          Inl cause \<Rightarrow> Inl (Error StandardRelayerApiError)
        | Inr response \<Rightarrow>
            Inr (map (\<lambda>item. if assetData (assetDataA item) = assetId
                              then assetData (assetDataB item)
                              else assetData (assetDataA item))
                     (records response)))
   \<and> fst (getAvailableTakerAssetDatasAsync DEFAULT_PER_PAGE this assetId)
     = (case getAssetPairsAsync (sraClient this)
              \<lparr> assetPairsRequestOpts.networkId = networkId this, perPage = DEFAULT_PER_PAGE,
                assetPairsRequestOpts.assetDataA = assetId \<rparr> of
          Inl cause \<Rightarrow> Inl (Error StandardRelayerApiError)
        | Inr response \<Rightarrow>
            Inr (map (\<lambda>item. if assetData (assetDataA item) = assetId
                              then assetData (assetDataB item)
                              else assetData (assetDataA item))
                     (records response)))
   \<and> (\<forall>response.
        getAssetPairsAsync (sraClient this)
          \<lparr> assetPairsRequestOpts.networkId = networkId this, perPage = 1000,
            assetPairsRequestOpts.assetDataA = assetId \<rparr> = Inr response
        \<longrightarrow> (\<exists>out. fst (getAvailableMakerAssetDatasAsync this assetId) = Inr out
               \<and> length out = length (records response)))
   \<and> (\<forall>response.
        getAssetPairsAsync (sraClient this)
          \<lparr> assetPairsRequestOpts.networkId = networkId this, perPage = DEFAULT_PER_PAGE,
            assetPairsRequestOpts.assetDataA = assetId \<rparr> = Inr response
        \<longrightarrow> (\<exists>out. fst (getAvailableTakerAssetDatasAsync DEFAULT_PER_PAGE this assetId) = Inr out
               \<and> length out = length (records response)))"
  by (simp add: getAvailableMakerAssetDatasAsync_def getAvailableTakerAssetDatasAsync_def
      Let_def split: sum.split)

theorem page_size_contract_witness:
  "getAvailableMakerAssetDatasAsync exampleProvider ''X''
     = (Inr [''Y''],
        [GetAssetPairsAsync \<lparr> assetPairsRequestOpts.networkId = JSNumber 1, perPage = 1000,
                              assetPairsRequestOpts.assetDataA = ''X'' \<rparr>])
   \<and> getAvailableTakerAssetDatasAsync 100 exampleProvider ''X''
     = (Inr [''Y''],
        [GetAssetPairsAsync \<lparr> assetPairsRequestOpts.networkId = JSNumber 1, perPage = 100,
                              assetPairsRequestOpts.assetDataA = ''X'' \<rparr>])
   \<and> getAvailableMakerAssetDatasAsync exampleProvider ''fail''
     = (Inl (Error StandardRelayerApiError),
        [GetAssetPairsAsync \<lparr> assetPairsRequestOpts.networkId = JSNumber 1, perPage = 1000,
                              assetPairsRequestOpts.assetDataA = ''fail'' \<rparr>])"
proof -
  have r: "getAssetPairsAsync (sraClient exampleProvider)
            \<lparr> assetPairsRequestOpts.networkId = JSNumber 1, perPage = p,
              assetPairsRequestOpts.assetDataA = ''X'' \<rparr> = Inr \<lparr> records = [examplePair] \<rparr>"
    "getAssetPairsAsync (sraClient exampleProvider)
            \<lparr> assetPairsRequestOpts.networkId = JSNumber 1, perPage = p,
              assetPairsRequestOpts.assetDataA = ''fail'' \<rparr> = Inl ''500''" for p
    by (simp_all add: exampleProvider_def exampleClient_def)
  have n: "networkId exampleProvider = JSNumber 1"
    by (simp add: exampleProvider_def)
  from page_size_contract [of exampleProvider "''X''" 100]
  have "fst (getAvailableMakerAssetDatasAsync exampleProvider ''X'') = Inr [''Y'']"
    and "snd (getAvailableMakerAssetDatasAsync exampleProvider ''X'')
         = [GetAssetPairsAsync \<lparr> assetPairsRequestOpts.networkId = JSNumber 1, perPage = 1000,
                                 assetPairsRequestOpts.assetDataA = ''X'' \<rparr>]"
    and "fst (getAvailableTakerAssetDatasAsync 100 exampleProvider ''X'') = Inr [''Y'']"
    and "snd (getAvailableTakerAssetDatasAsync 100 exampleProvider ''X'')
         = [GetAssetPairsAsync \<lparr> assetPairsRequestOpts.networkId = JSNumber 1, perPage = 100,
                                 assetPairsRequestOpts.assetDataA = ''X'' \<rparr>]"
    by (simp_all add: r n examplePair_def)
  moreover from page_size_contract [of exampleProvider "''fail''" 100]
  have "fst (getAvailableMakerAssetDatasAsync exampleProvider ''fail'')
          = Inl (Error StandardRelayerApiError)"
    and "snd (getAvailableMakerAssetDatasAsync exampleProvider ''fail'')
         = [GetAssetPairsAsync \<lparr> assetPairsRequestOpts.networkId = JSNumber 1, perPage = 1000,
                                 assetPairsRequestOpts.assetDataA = ''fail'' \<rparr>]"
    by (simp_all add: r n)
  ultimately show ?thesis
    by (simp add: prod_eq_iff)
qed

text \<open>
  C9 (construction validation). When the URL does not pass the check of web URIs or the
  network identifier is not a number, the constructor fails with \<open>InvalidConfiguration\<close>
  and has created no client; otherwise it creates exactly one client, for the URL, and
  the provider stores the URL, the network identifier and that client.
\<close>

theorem construction_validation:
  "(\<not> isWebUri url \<or> \<not> isNumber netId
      \<longrightarrow> (\<exists>v. constructor isWebUri HttpClient url netId = (Inl (InvalidConfiguration v), [])))
   \<and> (isWebUri url \<and> isNumber netId
      \<longrightarrow> (\<exists>p. constructor isWebUri HttpClient url netId = (Inr p, [NewHttpClient url])
              \<and> apiUrl p = url \<and> networkId p = netId \<and> sraClient p = HttpClient url))"
  by (simp add: constructor_def)

theorem construction_validation_witness:
  "fst (constructor startsWithHttp (\<lambda>url. exampleClient) ''not a url'' (JSNumber 1))
     = Inl (InvalidConfiguration ''apiUrl'')
   \<and> snd (constructor startsWithHttp (\<lambda>url. exampleClient) ''not a url'' (JSNumber 1)) = []
   \<and> fst (constructor startsWithHttp (\<lambda>url. exampleClient) ''http://sra.example'' (JSString ''1''))
     = Inl (InvalidConfiguration ''networkId'')
   \<and> constructor startsWithHttp (\<lambda>url. exampleClient) ''http://sra.example'' (JSNumber 1)
     = (Inr exampleProvider, [NewHttpClient ''http://sra.example''])"
  using construction_validation [of startsWithHttp "''not a url''" "JSNumber 1" "\<lambda>url. exampleClient"]
    construction_validation [of startsWithHttp "''http://sra.example''" "JSString ''1''" "\<lambda>url. exampleClient"]
    construction_validation [of startsWithHttp "''http://sra.example''" "JSNumber 1" "\<lambda>url. exampleClient"]
  by (simp add: startsWithHttp_def isNumber_def constructor_def exampleProvider_def)

end
